theory Spec2Isabelle
  imports Main "HOL-Library.AList"
begin

section \<open>JavaScript values\<close>

text \<open>
  The library is dynamically typed: a configuration, an options object, a decoded response
  body and a callback are all plain JavaScript values. Objects are association lists in
  insertion order with one entry per key; functions are opaque identities; an \<open>Error\<close>
  object is its message. Numbers are integers: fractions, NaN and the infinities are
  outside the model.
\<close>

datatype jsval =
    JUndefined
  | JNull
  | JBool bool
  | JNum int
  | JStr string
  | JArr "jsval list"
  | JObj "(string \<times> jsval) list"
  | JFun nat
  | JError string

text \<open>What a statement can throw: \<open>throw new Error(msg)\<close> of the source, the TypeError of
  a member read on \<open>null\<close> or \<open>undefined\<close>, the SyntaxError of \<open>JSON.parse\<close>.\<close>

datatype exn = Error string | TypeError | SyntaxError

text \<open>
  Three built-ins of the runtime are parameters of the model, each \<open>None\<close> where the
  built-in throws: \<open>JSON.parse\<close>; \<open>String(v)\<close> for a value that is not a string (number
  formatting, array joining, \<open>[object Object]\<close>), which throws a TypeError for an object
  whose own \<open>toString\<close> is not callable; and the string that a value that is not a string
  contributes to \<open>+\<close> with a string operand, which throws a TypeError likewise.
\<close>

record engine =
  JSON_parse :: "string \<Rightarrow> jsval option"
  String_of :: "jsval \<Rightarrow> string option"
  Operand_of :: "jsval \<Rightarrow> string option"

text \<open>\<open>String(v)\<close>: a string is itself.\<close>

definition ToString :: "engine \<Rightarrow> jsval \<Rightarrow> exn + string" where
  "ToString eng v =
     (case v of
        JStr s \<Rightarrow> Inr s
      | _ \<Rightarrow> (case String_of eng v of None \<Rightarrow> Inl TypeError | Some s \<Rightarrow> Inr s))"

text \<open>The operand \<open>v\<close> of a string concatenation \<open>v + s\<close> or \<open>s + v\<close>: a string is itself.\<close>

definition operand :: "engine \<Rightarrow> jsval \<Rightarrow> exn + string" where
  "operand eng v =
     (case v of
        JStr s \<Rightarrow> Inr s
      | _ \<Rightarrow> (case Operand_of eng v of None \<Rightarrow> Inl TypeError | Some s \<Rightarrow> Inr s))"

fun truthy :: "jsval \<Rightarrow> bool" where
  "truthy JUndefined = False"
| "truthy JNull = False"
| "truthy (JBool b) = b"
| "truthy (JNum n) = (n \<noteq> 0)"
| "truthy (JStr s) = (s \<noteq> [])"
| "truthy (JArr xs) = True"
| "truthy (JObj kvs) = True"
| "truthy (JFun f) = True"
| "truthy (JError m) = True"

fun typeof :: "jsval \<Rightarrow> string" where
  "typeof JUndefined = ''undefined''"
| "typeof JNull = ''object''"
| "typeof (JBool b) = ''boolean''"
| "typeof (JNum n) = ''number''"
| "typeof (JStr s) = ''string''"
| "typeof (JArr xs) = ''object''"
| "typeof (JObj kvs) = ''object''"
| "typeof (JFun f) = ''function''"
| "typeof (JError m) = ''object''"

text \<open>\<open>a || b\<close>\<close>

definition js_or :: "jsval \<Rightarrow> jsval \<Rightarrow> jsval" where
  "js_or a b = (if truthy a then a else b)"

text \<open>
  The member read \<open>o.k\<close>, for the names the source reads (\<open>token\<close>, \<open>secret\<close>, \<open>server\<close>,
  \<open>protocol\<close>, \<open>port\<close>, \<open>error\<close>, \<open>errors\<close>), none of which is built in or inherited on any
  value: it throws on \<open>null\<close> and \<open>undefined\<close>, finds the entry of an object, and is
  \<open>undefined\<close> everywhere else.
\<close>

fun get_prop :: "jsval \<Rightarrow> string \<Rightarrow> exn + jsval" where
  "get_prop JUndefined k = Inl TypeError"
| "get_prop JNull k = Inl TypeError"
| "get_prop (JObj kvs) k = Inr (case map_of kvs k of None \<Rightarrow> JUndefined | Some v \<Rightarrow> v)"
| "get_prop (JBool b) k = Inr JUndefined"
| "get_prop (JNum n) k = Inr JUndefined"
| "get_prop (JStr s) k = Inr JUndefined"
| "get_prop (JArr xs) k = Inr JUndefined"
| "get_prop (JFun f) k = Inr JUndefined"
| "get_prop (JError m) k = Inr JUndefined"

definition and_then :: "exn + 'a \<Rightarrow> ('a \<Rightarrow> exn + 'b) \<Rightarrow> exn + 'b" where
  "and_then r f = (case r of Inl e \<Rightarrow> Inl e | Inr x \<Rightarrow> f x)"

text \<open>
  \<open>new Error(message, ...)\<close>: the message is the first argument converted to a string
  (empty when it is absent or \<open>undefined\<close>), and the constructor throws when that
  conversion does. Node's constructor reads a second argument only as an options object
  with a \<open>cause\<close>; a number there, and every later argument, is dropped.
\<close>

definition new_Error :: "engine \<Rightarrow> jsval list \<Rightarrow> exn + jsval" where
  "new_Error eng args =
     (case args of
        [] \<Rightarrow> Inr (JError [])
      | m # _ \<Rightarrow>
          if m = JUndefined then Inr (JError [])
          else and_then (ToString eng m) (\<lambda>message. Inr (JError message)))"

section \<open>The merge dependency\<close>

fun props :: "jsval \<Rightarrow> (string \<times> jsval) list" where
  "props (JObj kvs) = kvs"
| "props _ = []"

text \<open>
  Modelled from the spec: the \<open>merge\<close> package (\<open>require("merge")\<close>) is a dependency that
  is not among the source files. The spec describes its use as a shallow merge in which
  the later object's values win key by key. Every key of the second object is assigned
  into the first in order (an existing key keeps its place, a new key goes to the end);
  an argument that is not a plain object contributes nothing.
\<close>

definition merge :: "jsval \<Rightarrow> jsval \<Rightarrow> jsval" where
  "merge a b = JObj (fold (\<lambda>(k, v). AList.update k v) (props b) (props a))"

section \<open>The client\<close>

definition default_config :: jsval where
  "default_config =
     JObj [(''token'', JNull), (''secret'', JNull), (''server'', JNull),
           (''protocol'', JStr ''http''), (''port'', JNum 80)]"

record client =
  config :: jsval

text \<open>The constructor; the \<open>debug\<close> trace lines of the source have no effect on control flow
  and are left out throughout.\<close>

definition SirportlyAPI :: "jsval \<Rightarrow> exn + client" where
  "SirportlyAPI cfg =
     (let c = merge default_config (js_or cfg (JObj []));
          misconfigured =
            Inl (Error ''Misconfiguration, token, secret and server required in the config.'')
      in and_then (get_prop c ''token'') (\<lambda>token.
           if \<not> truthy token then misconfigured
           else and_then (get_prop c ''secret'') (\<lambda>secret.
             if \<not> truthy secret then misconfigured
             else and_then (get_prop c ''server'') (\<lambda>server.
               if \<not> truthy server then misconfigured
               else Inr \<lparr>config = c\<rparr>))))"

definition getConfig :: "client \<Rightarrow> jsval" where
  "getConfig this = config this"

section \<open>The request\<close>

text \<open>
  \<open>request\<close> of the source does two things: it hands the merged options and a response
  handler to the HTTP transport, and later the handler runs on the transport's reply.
  The first half returns what the transport was called with: the options and the
  callback the handler closes over.
\<close>

record outbound =
  req_options :: jsval
  req_callback :: jsval

text \<open>
  The local \<open>endpoint\<close> of \<open>request\<close>:
  \<open>this._config.protocol + "://" + this._config.server + ":" + this._config.port + uri\<close>,
  each operand read and converted from left to right.
\<close>

definition endpoint :: "engine \<Rightarrow> client \<Rightarrow> jsval \<Rightarrow> exn + string" where
  "endpoint eng this uri =
     and_then (get_prop (config this) ''protocol'') (\<lambda>protocol.
     and_then (operand eng protocol) (\<lambda>p.
     and_then (get_prop (config this) ''server'') (\<lambda>server.
     and_then (operand eng server) (\<lambda>s.
     and_then (get_prop (config this) ''port'') (\<lambda>port.
     and_then (operand eng port) (\<lambda>n.
     and_then (operand eng uri) (\<lambda>u.
       Inr (p @ ''://'' @ s @ '':'' @ n @ u))))))))"

definition request :: "engine \<Rightarrow> client \<Rightarrow> jsval \<Rightarrow> jsval \<Rightarrow> jsval \<Rightarrow> exn + outbound" where
  "request eng this uri options callback =
     (if \<not> truthy callback \<or> typeof callback \<noteq> ''function''
      then Inl (Error ''Callback parameter must be a fuction'')
      else
        and_then (endpoint eng this uri) (\<lambda>url.
        and_then (get_prop (config this) ''token'') (\<lambda>token.
        and_then (get_prop (config this) ''secret'') (\<lambda>secret.
          Inr \<lparr>req_options =
                 merge (JObj [(''method'', JStr ''GET''),
                              (''url'', JStr url),
                              (''headers'', JObj [(''X-Auth-Token'', token),
                                                  (''X-Auth-Secret'', secret)])])
                       options,
               req_callback = callback\<rparr>))))"

text \<open>
  The transport's reply, as the handler's three parameters: \<open>error\<close>, the status code of
  \<open>response\<close>, and \<open>body\<close>.
\<close>

record reply =
  error :: jsval
  statusCode :: int
  body :: string

text \<open>The calls made to the completion callback so far: the function and its arguments.\<close>

type_synonym invocation = "jsval \<times> jsval list"

definition invoke :: "jsval \<Rightarrow> jsval list \<Rightarrow> invocation list \<Rightarrow> invocation list" where
  "invoke f args log = log @ [(f, args)]"

text \<open>
  The response handler. It returns the exception that escapes it, if any, and the log of
  callback invocations.
\<close>

definition on_response ::
  "engine \<Rightarrow> jsval \<Rightarrow> reply \<Rightarrow> invocation list \<Rightarrow> exn option \<times> invocation list" where
  "on_response eng callback r log =
     (if truthy (error r) then (None, invoke callback [error r] log)
      else
        case JSON_parse eng (body r) of
          None \<Rightarrow> (Some SyntaxError, log)
        | Some body_json \<Rightarrow>
            if statusCode r > 299 \<or> statusCode r < 200 then
              (case get_prop body_json ''error'' of
                 Inl e \<Rightarrow> (Some e, log)
               | Inr single \<Rightarrow>
                   if truthy single
                   then (case new_Error eng [single] of
                           Inl e \<Rightarrow> (Some e, log)
                         | Inr err \<Rightarrow> (None, invoke callback [err] log))
                   else
                     (case get_prop body_json ''errors'' of
                        Inl e \<Rightarrow> (Some e, log)
                      | Inr plural \<Rightarrow>
                          if truthy plural
                          then (case new_Error eng
                                       [JStr (body r), JNum (statusCode r), JStr (body r)] of
                                  Inl e \<Rightarrow> (Some e, log)
                                | Inr err \<Rightarrow> (None, invoke callback [err] log))
                          else (None, invoke callback [JNull, body_json] log)))
            else (None, invoke callback [JNull, body_json] log))"

text \<open>One whole call against a simulated transport that answers each request at once.\<close>

definition request_reply ::
  "engine \<Rightarrow> (jsval \<Rightarrow> reply) \<Rightarrow> client \<Rightarrow> jsval \<Rightarrow> jsval \<Rightarrow> jsval
     \<Rightarrow> exn option \<times> invocation list" where
  "request_reply eng transport this uri options callback =
     (case request eng this uri options callback of
        Inl e \<Rightarrow> (Some e, [])
      | Inr out \<Rightarrow> on_response eng (req_callback out) (transport (req_options out)) [])"

section \<open>Convenience operations\<close>

definition tickets :: "engine \<Rightarrow> client \<Rightarrow> jsval \<Rightarrow> jsval \<Rightarrow> exn + outbound" where
  "tickets eng this page callback =
     (let (page1, callback1) =
            (if typeof page = ''function''
             then (let p = JNum 1; c = p in (p, c))
             else (page, callback))
      in request eng this (JStr ''/api/v2/tickets/all'')
           (JObj [(''qs'', JObj [(''page'', js_or page1 (JNum 1))])])
           callback1)"

definition create_user ::
  "engine \<Rightarrow> client \<Rightarrow> jsval \<Rightarrow> jsval \<Rightarrow> jsval \<Rightarrow> jsval \<Rightarrow> jsval \<Rightarrow> exn + outbound" where
  "create_user eng this email first last' params callback =
     request eng this (JStr ''/api/v2/users/create'')
       (JObj [(''method'', JStr ''POST''),
              (''qs'', merge (JObj [(''email_address'', email),
                                    (''first_name'', first),
                                    (''last_name'', last')])
                             params)])
       callback"

section \<open>Fixtures for the worked examples\<close>

text \<open>
  A stand-in engine: it decodes the handful of bodies the examples use and converts the
  values they convert as Node does: the port number 80, a plain object, and an object
  whose own \<open>toString\<close> is not callable, on which the conversion throws. Conversions that
  no example needs give the empty string.
\<close>

definition sample_parse :: "string \<Rightarrow> jsval option" where
  \<open>sample_parse s =
     (if s = ''null'' then Some JNull
      else if s = ''{"foo":"bar"}'' then Some (JObj [(''foo'', JStr ''bar'')])
      else if s = ''{"error":"not found"}'' then Some (JObj [(''error'', JStr ''not found'')])
      else if s = ''{"error":{"code":7}}''
        then Some (JObj [(''error'', JObj [(''code'', JNum 7)])])
      else if s = ''{"error":{"toString":1}}''
        then Some (JObj [(''error'', JObj [(''toString'', JNum 1)])])
      else if s = ''{"errors":["a","b"]}''
        then Some (JObj [(''errors'', JArr [JStr ''a'', JStr ''b''])])
      else None)\<close>

fun sample_String_of :: "jsval \<Rightarrow> string option" where
  "sample_String_of JUndefined = Some ''undefined''"
| "sample_String_of JNull = Some ''null''"
| "sample_String_of (JBool b) = Some (if b then ''true'' else ''false'')"
| "sample_String_of (JNum n) = Some (if n = 80 then ''80'' else [])"
| "sample_String_of (JObj kvs) =
     (case map_of kvs ''toString'' of None \<Rightarrow> Some ''[object Object]'' | Some f \<Rightarrow> None)"
| "sample_String_of v = Some []"

definition sample_engine :: engine where
  "sample_engine =
     \<lparr>JSON_parse = sample_parse, String_of = sample_String_of, Operand_of = sample_String_of\<rparr>"

definition sample_config :: jsval where
  "sample_config =
     JObj [(''token'', JStr ''t0k3n''), (''secret'', JStr ''s3cr3t''),
           (''server'', JStr ''desk.example.com'')]"

definition sample_client :: client where
  "sample_client =
     \<lparr>config = JObj [(''token'', JStr ''t0k3n''), (''secret'', JStr ''s3cr3t''),
                     (''server'', JStr ''desk.example.com''),
                     (''protocol'', JStr ''http''), (''port'', JNum 80)]\<rparr>"

section \<open>Auxiliary facts\<close>

lemma map_of_fold_update:
  "map_of (fold (\<lambda>(k, v). AList.update k v) b a) k =
     (case map_of (rev b) k of Some v \<Rightarrow> Some v | None \<Rightarrow> map_of a k)"
proof (induction b arbitrary: a)
  case Nil
  show ?case by simp
next
  case (Cons p b)
  obtain j w where p: "p = (j, w)" by (cases p)
  show ?case
    by (simp add: p Cons.IH update_conv' map_add_def split: option.splits)
qed

lemma map_of_rev_distinct:
  "distinct (map fst b) \<Longrightarrow> map_of (rev b) = map_of b"
  by (simp add: map_of_inject_set distinct_map)

lemma typeof_function: "typeof v = ''function'' \<Longrightarrow> truthy v"
  by (cases v) simp_all

lemma get_prop_merge:
  "get_prop (merge a b) k =
     Inr (case map_of (rev (props b)) k of
            Some v \<Rightarrow> v
          | None \<Rightarrow> (case map_of (props a) k of Some v \<Rightarrow> v | None \<Rightarrow> JUndefined))"
  by (simp add: merge_def map_of_fold_update split: option.splits)

lemma props_js_or: "props (js_or cfg (JObj [])) = props cfg"
  by (cases cfg) (simp_all add: js_or_def)

lemma effective_config:
  assumes "distinct (map fst (props cfg))"
  shows "get_prop (merge default_config (js_or cfg (JObj []))) k =
           Inr (case map_of (props cfg) k of
                  Some v \<Rightarrow> v
                | None \<Rightarrow> (case map_of (props default_config) k of
                              Some d \<Rightarrow> d | None \<Rightarrow> JUndefined))"
  by (simp add: get_prop_merge props_js_or map_of_rev_distinct [OF assms])

lemma defaults:
  "map_of (props default_config) ''token'' = Some JNull"
  "map_of (props default_config) ''secret'' = Some JNull"
  "map_of (props default_config) ''server'' = Some JNull"
  "map_of (props default_config) ''protocol'' = Some (JStr ''http'')"
  "map_of (props default_config) ''port'' = Some (JNum 80)"
  by (simp_all add: default_config_def)

lemma constructed_config:
  "SirportlyAPI cfg = Inr this \<Longrightarrow> config this = merge default_config (js_or cfg (JObj []))"
  by (auto simp: SirportlyAPI_def Let_def and_then_def split: sum.splits if_splits)

lemma sample_client_constructed: "SirportlyAPI sample_config = Inr sample_client"
  by (simp add: SirportlyAPI_def sample_config_def sample_client_def default_config_def
      merge_def js_or_def and_then_def)

lemma operand_throws: "operand eng v = Inl e \<Longrightarrow> e = TypeError"
  by (cases v) (auto simp: operand_def split: option.splits)

lemma endpoint_throws:
  "config this = JObj kvs \<Longrightarrow> endpoint eng this uri = Inl e \<Longrightarrow> e = TypeError"
  by (auto simp: endpoint_def and_then_def split: sum.splits dest: operand_throws)

lemma request_dispatches:
  fixes kvs :: "(string \<times> jsval) list"
  defines "val \<equiv> \<lambda>k. case map_of kvs k of None \<Rightarrow> JUndefined | Some v \<Rightarrow> v"
  assumes "typeof callback = ''function''" and "config this = JObj kvs"
    and "endpoint eng this uri = Inr url"
  shows "request eng this uri options callback =
           Inr \<lparr>req_options =
                  merge (JObj [(''method'', JStr ''GET''),
                               (''url'', JStr url),
                               (''headers'', JObj [(''X-Auth-Token'', val ''token''),
                                                   (''X-Auth-Secret'', val ''secret'')])])
                        options,
                req_callback = callback\<rparr>"
  using assms(2-4) typeof_function [OF assms(2)]
  by (simp add: request_def and_then_def val_def)

lemma request_throws:
  assumes "typeof callback = ''function''" and "config this = JObj kvs"
    and "endpoint eng this uri = Inl e"
  shows "request eng this uri options callback = Inl TypeError"
  using assms typeof_function [OF assms(1)] endpoint_throws [OF assms(2,3)]
  by (simp add: request_def and_then_def)

lemma sample_endpoint:
  "endpoint sample_engine sample_client (JStr path)
     = Inr (''http://desk.example.com:80'' @ path)"
  by (simp add: endpoint_def and_then_def operand_def sample_client_def sample_engine_def)

lemma new_Error_string: "new_Error eng (JStr s # rest) = Inr (JError s)"
  by (simp add: new_Error_def ToString_def and_then_def)

text \<open>The handler never calls the callback twice, whatever the reply.\<close>

lemma on_response_grows:
  "\<exists>calls. snd (on_response eng callback r log) = log @ calls \<and> length calls \<le> 1"
  by (auto simp: on_response_def invoke_def split: option.splits sum.splits)

lemma request_reply_at_most_once:
  "length (snd (request_reply eng transport this uri options callback)) \<le> 1"
proof (cases "request eng this uri options callback")
  case (Inl e)
  then show ?thesis by (simp add: request_reply_def)
next
  case (Inr out)
  obtain calls where
    "snd (on_response eng (req_callback out) (transport (req_options out)) []) = [] @ calls"
    "length calls \<le> 1"
    using on_response_grows by blast
  with Inr show ?thesis by (simp add: request_reply_def)
qed

text \<open>When the handler returns normally it has called the callback exactly once.\<close>

lemma on_response_returns_once:
  "fst (on_response eng callback r log) = None
   \<Longrightarrow> \<exists>args. snd (on_response eng callback r log) = log @ [(callback, args)]"
  by (auto simp: on_response_def invoke_def split: option.splits sum.splits if_splits)

text \<open>A transport error goes to the callback as it is, and nothing is decoded.\<close>

lemma on_response_transport_error:
  "truthy (error r) \<Longrightarrow> on_response eng callback r log = (None, log @ [(callback, [error r])])"
  by (simp add: on_response_def invoke_def)

text \<open>A status from 200 to 299 passes the decoded body on, whatever it is.\<close>

lemma on_response_success:
  assumes "\<not> truthy (error r)" and "200 \<le> statusCode r" and "statusCode r \<le> 299"
    and "JSON_parse eng (body r) = Some body_json"
  shows "on_response eng callback r log = (None, log @ [(callback, [JNull, body_json])])"
  using assms by (simp add: on_response_def invoke_def)

text \<open>Outside 200 to 299, a decoded body other than \<open>null\<close> with neither error member
  truthy is passed on as a success.\<close>

lemma on_response_falls_through:
  assumes "\<not> truthy (error r)" and "statusCode r > 299 \<or> statusCode r < 200"
    and "JSON_parse eng (body r) = Some body_json"
    and "body_json \<noteq> JNull" and "body_json \<noteq> JUndefined"
    and "\<forall>v. get_prop body_json ''error'' = Inr v \<longrightarrow> \<not> truthy v"
    and "\<forall>v. get_prop body_json ''errors'' = Inr v \<longrightarrow> \<not> truthy v"
  shows "on_response eng callback r log = (None, log @ [(callback, [JNull, body_json])])"
proof -
  obtain v w where "get_prop body_json ''error'' = Inr v" "get_prop body_json ''errors'' = Inr w"
    using assms(4,5) by (cases body_json) simp_all
  with assms show ?thesis
    by (auto simp: on_response_def invoke_def)
qed

text \<open>Outside 200 to 299 with a truthy \<open>errors\<close> member, the error's message is the raw
  body, for every status code.\<close>

lemma on_response_plural:
  assumes "\<not> truthy (error r)" and "statusCode r > 299 \<or> statusCode r < 200"
    and "JSON_parse eng (body r) = Some body_json"
    and "get_prop body_json ''error'' = Inr v" and "\<not> truthy v"
    and "get_prop body_json ''errors'' = Inr w" and "truthy w"
  shows "on_response eng callback r log = (None, log @ [(callback, [JError (body r)])])"
  using assms by (auto simp: on_response_def invoke_def new_Error_string)

text \<open>Outside 200 to 299 with a truthy \<open>error\<close> member, the handler builds the error from
  that member: the callback gets it, or the conversion's exception escapes.\<close>

lemma on_response_single:
  assumes "\<not> truthy (error r)" and "statusCode r > 299 \<or> statusCode r < 200"
    and "JSON_parse eng (body r) = Some body_json"
    and "get_prop body_json ''error'' = Inr v" and "truthy v"
  shows "on_response eng callback r log =
           (case ToString eng v of
              Inl e \<Rightarrow> (Some e, log)
            | Inr m \<Rightarrow> (None, log @ [(callback, [JError m])]))"
proof -
  from assms(5) have "v \<noteq> JUndefined" by auto
  with assms show ?thesis
    by (auto simp: on_response_def invoke_def new_Error_def and_then_def split: sum.splits)
qed

text \<open>With a page that is not a function and a callback that is one, \<open>tickets\<close> sends the
  page, or 1 when the page is falsy, as the \<open>page\<close> query parameter.\<close>

lemma tickets_with_page:
  assumes "SirportlyAPI cfg = Inr this" and "typeof page \<noteq> ''function''"
    and "typeof callback = ''function''"
    and "endpoint eng this (JStr ''/api/v2/tickets/all'') = Inr url"
  shows "\<exists>out qs. tickets eng this page callback = Inr out \<and> req_callback out = callback
           \<and> get_prop (req_options out) ''method'' = Inr (JStr ''GET'')
           \<and> get_prop (req_options out) ''url'' = Inr (JStr url)
           \<and> get_prop (req_options out) ''qs'' = Inr qs
           \<and> get_prop qs ''page'' = Inr (if truthy page then page else JNum 1)"
proof -
  obtain kvs where "config this = JObj kvs"
    using constructed_config [OF assms(1)] by (simp add: merge_def)
  from request_dispatches [OF assms(3) this assms(4)] assms(2) show ?thesis
    by (simp add: tickets_def get_prop_merge js_or_def)
qed

section \<open>Properties\<close>

subsection \<open>The completion callback\<close>

text \<open>
  Claim C1. The completion callback is to be invoked at most once on every branch, and
  exactly once whenever the response body decodes as JSON. The first half holds
  (\<open>request_reply_at_most_once\<close>), and so does the second whenever the handler returns
  (\<open>on_response_returns_once\<close>). The second half fails for one decoded body: with a status
  outside 200 to 299 the handler reads \<open>body_json.error\<close> with no guard, so a body that
  decodes to \<open>null\<close> throws a TypeError there and the call ends without any invocation of
  the callback. Inside 200 to 299 the same body is passed on (\<open>on_response_success\<close>).
\<close>

theorem null_body_call_never_completes:
  assumes "SirportlyAPI cfg = Inr this" and "typeof callback = ''function''"
    and "\<not> truthy (error r)" and "statusCode r > 299 \<or> statusCode r < 200"
    and "JSON_parse eng (body r) = Some JNull"
  shows "request_reply eng (\<lambda>opts. r) this uri options callback = (Some TypeError, [])"
proof -
  obtain kvs where c: "config this = JObj kvs"
    using constructed_config [OF assms(1)] by (simp add: merge_def)
  show ?thesis
  proof (cases "endpoint eng this uri")
    case (Inl e)
    from request_throws [OF assms(2) c Inl] show ?thesis
      by (simp add: request_reply_def)
  next
    case (Inr url)
    from request_dispatches [OF assms(2) c Inr] assms(3-5) show ?thesis
      by (auto simp: request_reply_def on_response_def)
  qed
qed

theorem null_body_call_never_completes_witness:
  "request_reply sample_engine (\<lambda>opts. \<lparr>error = JNull, statusCode = 500, body = ''null''\<rparr>)
     sample_client (JStr ''/api/v2/objects/statuses'') (JObj []) (JFun 0)
   = (Some TypeError, [])"
proof -
  let ?r = "\<lparr>error = JNull, statusCode = 500, body = ''null''\<rparr>"
  have h: "SirportlyAPI sample_config = Inr sample_client" "typeof (JFun 0) = ''function''"
    "\<not> truthy (error ?r)" "statusCode ?r > 299 \<or> statusCode ?r < 200"
    "JSON_parse sample_engine (body ?r) = Some JNull"
    by (simp_all add: sample_client_constructed sample_engine_def sample_parse_def)
  show ?thesis by (rule null_body_call_never_completes [OF h])
qed

subsection \<open>Listing tickets\<close>

text \<open>
  Claim C2. \<open>tickets\<close> is to accept the callback as its first argument, default the page
  to 1 and dispatch the GET with the caller's callback. The source assigns \<open>page = 1\<close>
  before \<open>callback = page\<close>, so the callback becomes the number 1 and \<open>request\<close> rejects
  it: whenever a function is passed first, \<open>tickets\<close> throws and nothing is dispatched.
  With a page first and a callback second it does dispatch (\<open>tickets_with_page\<close>).
\<close>

theorem tickets_callback_first_throws:
  "tickets eng this (JFun f) callback = Inl (Error ''Callback parameter must be a fuction'')"
  by (simp add: tickets_def request_def Let_def)

theorem tickets_callback_first_throws_witness:
  "tickets sample_engine sample_client (JFun 0) JUndefined
   = Inl (Error ''Callback parameter must be a fuction'')"
  by (rule tickets_callback_first_throws)

subsection \<open>Authentication headers\<close>

text \<open>
  Claim C3, amended. For every request that a constructed client dispatches (the callback
  is a function and the endpoint is built), the outbound header map depends on the
  caller's options alone: when they carry no \<open>headers\<close> key it is exactly the two
  authentication headers, \<open>X-Auth-Token\<close> and \<open>X-Auth-Secret\<close>, holding the configured
  (truthy) token and secret; when they carry one, it is that key's value, which replaces
  the default header map whole.
\<close>

theorem outbound_headers:
  assumes "SirportlyAPI cfg = Inr this" and "typeof callback = ''function''"
    and "endpoint eng this uri = Inr url"
    and "distinct (map fst (props options))"
  shows "\<exists>out token secret.
           request eng this uri options callback = Inr out
           \<and> get_prop (getConfig this) ''token'' = Inr token \<and> truthy token
           \<and> get_prop (getConfig this) ''secret'' = Inr secret \<and> truthy secret
           \<and> get_prop (req_options out) ''headers''
               = Inr (case map_of (props options) ''headers'' of
                        None \<Rightarrow> JObj [(''X-Auth-Token'', token), (''X-Auth-Secret'', secret)]
                      | Some h \<Rightarrow> h)"
proof -
  let ?c = "merge default_config (js_or cfg (JObj []))"
  have c: "config this = ?c" by (rule constructed_config [OF assms(1)])
  then obtain kvs where k: "config this = JObj kvs" by (simp add: merge_def)
  obtain token secret where
    t: "get_prop ?c ''token'' = Inr token" and s: "get_prop ?c ''secret'' = Inr secret"
    by (simp add: merge_def)
  from assms(1) t s have "truthy token" "truthy secret"
    by (auto simp: SirportlyAPI_def Let_def and_then_def split: if_splits sum.splits)
  with request_dispatches [OF assms(2) k assms(3)] k c t s show ?thesis
    by (auto simp: get_prop_merge getConfig_def map_of_rev_distinct [OF assms(4)]
        split: option.splits)
qed

theorem outbound_headers_witness:
  "(\<exists>out. request sample_engine sample_client (JStr ''/api/v2/tickets/ticket'')
            (JObj [(''qs'', JObj [(''reference'', JStr ''AB-123456'')])]) (JFun 0) = Inr out
         \<and> get_prop (req_options out) ''headers''
             = Inr (JObj [(''X-Auth-Token'', JStr ''t0k3n''),
                          (''X-Auth-Secret'', JStr ''s3cr3t'')]))
   \<and> (\<exists>out. request sample_engine sample_client (JStr ''/api/v2/tickets/ticket'')
            (JObj [(''headers'', JObj [(''Accept'', JStr ''application/json'')])]) (JFun 0)
            = Inr out
         \<and> get_prop (req_options out) ''headers''
             = Inr (JObj [(''Accept'', JStr ''application/json'')]))"
proof -
  let ?a = "JObj [(''qs'', JObj [(''reference'', JStr ''AB-123456'')])]"
  let ?b = "JObj [(''headers'', JObj [(''Accept'', JStr ''application/json'')])]"
  have h: "SirportlyAPI sample_config = Inr sample_client" "typeof (JFun 0) = ''function''"
    "endpoint sample_engine sample_client (JStr ''/api/v2/tickets/ticket'')
       = Inr (''http://desk.example.com:80'' @ ''/api/v2/tickets/ticket'')"
    by (simp_all add: sample_client_constructed sample_endpoint)
  have a: "distinct (map fst (props ?a))" and b: "distinct (map fst (props ?b))"
    by simp_all
  have 1: "\<exists>out. request sample_engine sample_client (JStr ''/api/v2/tickets/ticket'') ?a (JFun 0)
                   = Inr out
           \<and> get_prop (req_options out) ''headers''
               = Inr (JObj [(''X-Auth-Token'', JStr ''t0k3n''),
                            (''X-Auth-Secret'', JStr ''s3cr3t'')])"
    using outbound_headers [OF h a] by (auto simp: getConfig_def sample_client_def)
  have 2: "\<exists>out. request sample_engine sample_client (JStr ''/api/v2/tickets/ticket'') ?b (JFun 0)
                   = Inr out
           \<and> get_prop (req_options out) ''headers''
               = Inr (JObj [(''Accept'', JStr ''application/json'')])"
    using outbound_headers [OF h b] by (auto simp: getConfig_def sample_client_def)
  from 1 2 show ?thesis by (rule conjI)
qed

text \<open>
  As first stated, for every options object, the claim fails: the merge is shallow, so a
  caller's \<open>headers\<close> value replaces the default header map whole and the outbound request
  carries neither authentication header.
\<close>

theorem caller_headers_replace_auth_counterexample:
  "SirportlyAPI sample_config = Inr sample_client
   \<and> request sample_engine sample_client (JStr ''/api/v2/objects/statuses'')
       (JObj [(''headers'', JObj [(''Accept'', JStr ''application/json'')])]) (JFun 0)
     = Inr \<lparr>req_options =
              JObj [(''method'', JStr ''GET''),
                    (''url'', JStr ''http://desk.example.com:80/api/v2/objects/statuses''),
                    (''headers'', JObj [(''Accept'', JStr ''application/json'')])],
            req_callback = JFun 0\<rparr>
   \<and> get_prop (JObj [(''Accept'', JStr ''application/json'')]) ''X-Auth-Token'' = Inr JUndefined
   \<and> get_prop (JObj [(''Accept'', JStr ''application/json'')]) ''X-Auth-Secret'' = Inr JUndefined"
  by (simp add: sample_client_constructed request_def endpoint_def operand_def and_then_def
      merge_def sample_client_def sample_engine_def)

subsection \<open>Error envelopes\<close>

text \<open>
  Claim C4. With a status outside 200 to 299 and a truthy \<open>errors\<close> member (and no truthy
  \<open>error\<close> member) the callback is to receive an error that embeds the raw body and the
  status code. The source calls \<open>new Error(body, response.statusCode, body)\<close>; the
  constructor takes its message from the first argument alone, so the error is the raw
  body and nothing else: replacing the status code by any other one outside the range
  leaves the handler's outcome unchanged.
\<close>

theorem plural_errors_drop_status:
  assumes "\<not> truthy (error r)" and "statusCode r > 299 \<or> statusCode r < 200"
    and "c > 299 \<or> c < 200"
    and "JSON_parse eng (body r) = Some body_json"
    and "get_prop body_json ''error'' = Inr v" and "\<not> truthy v"
    and "get_prop body_json ''errors'' = Inr w" and "truthy w"
  shows "on_response eng callback r log = (None, log @ [(callback, [JError (body r)])])
         \<and> on_response eng callback (r\<lparr>statusCode := c\<rparr>) log = on_response eng callback r log"
proof -
  have 1: "on_response eng callback r log = (None, log @ [(callback, [JError (body r)])])"
    by (rule on_response_plural [OF assms(1,2,4-8)])
  have "on_response eng callback (r\<lparr>statusCode := c\<rparr>) log
          = (None, log @ [(callback, [JError (body (r\<lparr>statusCode := c\<rparr>))])])"
    by (rule on_response_plural [where body_json = body_json and v = v and w = w])
      (use assms in simp_all)
  with 1 show ?thesis by simp
qed

theorem plural_errors_drop_status_witness:
  \<open>on_response sample_engine (JFun 0)
     \<lparr>error = JNull, statusCode = 500, body = ''{"errors":["a","b"]}''\<rparr> []
   = (None, [(JFun 0, [JError ''{"errors":["a","b"]}''])])
   \<and> on_response sample_engine (JFun 0)
       \<lparr>error = JNull, statusCode = 404, body = ''{"errors":["a","b"]}''\<rparr> []
     = on_response sample_engine (JFun 0)
         \<lparr>error = JNull, statusCode = 500, body = ''{"errors":["a","b"]}''\<rparr> []\<close>
proof -
  let ?r = \<open>\<lparr>error = JNull, statusCode = 500, body = ''{"errors":["a","b"]}''\<rparr>\<close>
  let ?j = "JObj [(''errors'', JArr [JStr ''a'', JStr ''b''])]"
  have h: "\<not> truthy (error ?r)" "statusCode ?r > 299 \<or> statusCode ?r < 200"
    "(404::int) > 299 \<or> (404::int) < 200"
    "JSON_parse sample_engine (body ?r) = Some ?j"
    "get_prop ?j ''error'' = Inr JUndefined" "\<not> truthy JUndefined"
    "get_prop ?j ''errors'' = Inr (JArr [JStr ''a'', JStr ''b''])"
    "truthy (JArr [JStr ''a'', JStr ''b''])"
    by (simp_all add: sample_engine_def sample_parse_def)
  from plural_errors_drop_status [OF h, of "JFun 0" "[]"] show ?thesis by simp
qed

text \<open>
  Claim C5, amended. With a status outside 200 to 299 and a truthy \<open>error\<close> member in the
  decoded body, the handler converts that member's value to a string for the error's
  message. When the value is a string, as the response envelope types it, the callback is
  invoked once, with a single argument: an error whose message is that string. For any
  other truthy value whose conversion succeeds, the callback is invoked in the same way
  with the converted string as the message.
\<close>

theorem single_error_message:
  assumes "\<not> truthy (error r)" and "statusCode r > 299 \<or> statusCode r < 200"
    and "JSON_parse eng (body r) = Some body_json"
    and "get_prop body_json ''error'' = Inr v" and "truthy v"
    and "ToString eng v = Inr m"
  shows "on_response eng callback r log = (None, log @ [(callback, [JError m])])
         \<and> (case v of JStr s \<Rightarrow> m = s | _ \<Rightarrow> String_of eng v = Some m)
         \<and> ToString eng (JStr s) = Inr s"
proof -
  have "on_response eng callback r log = (None, log @ [(callback, [JError m])])"
    using on_response_single [OF assms(1-5)] assms(6) by simp
  moreover have "case v of JStr s \<Rightarrow> m = s | _ \<Rightarrow> String_of eng v = Some m"
    using assms(6) by (auto simp: ToString_def split: jsval.splits option.splits)
  moreover have "ToString eng (JStr s) = Inr s" by (simp add: ToString_def)
  ultimately show ?thesis by simp
qed

theorem single_error_message_witness:
  \<open>on_response sample_engine (JFun 0)
     \<lparr>error = JNull, statusCode = 404, body = ''{"error":"not found"}''\<rparr> []
   = (None, [(JFun 0, [JError ''not found''])])\<close>
proof -
  let ?r = \<open>\<lparr>error = JNull, statusCode = 404, body = ''{"error":"not found"}''\<rparr>\<close>
  have h: "\<not> truthy (error ?r)" "statusCode ?r > 299 \<or> statusCode ?r < 200"
    "JSON_parse sample_engine (body ?r) = Some (JObj [(''error'', JStr ''not found'')])"
    "get_prop (JObj [(''error'', JStr ''not found'')]) ''error'' = Inr (JStr ''not found'')"
    "truthy (JStr ''not found'')"
    by (simp_all add: sample_engine_def sample_parse_def)
  have m: "ToString sample_engine (JStr ''not found'') = Inr ''not found''"
    by (simp add: ToString_def)
  from single_error_message [OF h m, of "JFun 0" "[]"] show ?thesis by simp
qed

text \<open>
  As first stated, for every truthy value of the member, the claim fails when the value
  is not a string. For the body \<open>{"error":{"toString":1}}\<close> the conversion throws a
  TypeError, which escapes the handler, and the callback is not invoked at all; for the
  body \<open>{"error":{"code":7}}\<close> the callback gets the message \<open>[object Object]\<close>.
\<close>

theorem single_error_object_counterexample:
  \<open>JSON_parse sample_engine ''{"error":{"toString":1}}''
     = Some (JObj [(''error'', JObj [(''toString'', JNum 1)])])
   \<and> get_prop (JObj [(''error'', JObj [(''toString'', JNum 1)])]) ''error''
       = Inr (JObj [(''toString'', JNum 1)])
   \<and> truthy (JObj [(''toString'', JNum 1)])
   \<and> on_response sample_engine (JFun 0)
       \<lparr>error = JNull, statusCode = 404, body = ''{"error":{"toString":1}}''\<rparr> []
     = (Some TypeError, [])
   \<and> on_response sample_engine (JFun 0)
       \<lparr>error = JNull, statusCode = 404, body = ''{"error":{"code":7}}''\<rparr> []
     = (None, [(JFun 0, [JError ''[object Object]''])])\<close>
  by (simp add: on_response_def invoke_def new_Error_def ToString_def and_then_def
      sample_engine_def sample_parse_def)

text \<open>
  Claim C6. With a status outside 200 to 299 and a decoded body that has neither a truthy
  \<open>error\<close> member nor a truthy \<open>errors\<close> member, the handler is to fall through and invoke
  the callback with \<open>null\<close> and the decoded body. It does so for every decoded body but
  \<open>null\<close> (\<open>on_response_falls_through\<close>; \<open>JSON.parse\<close> never yields \<open>undefined\<close>). The body \<open>null\<close> has neither member, yet the
  unguarded read of \<open>body_json.error\<close> throws a TypeError and the callback is not invoked.
\<close>

theorem null_body_does_not_fall_through:
  assumes "\<not> truthy (error r)" and "statusCode r > 299 \<or> statusCode r < 200"
    and "JSON_parse eng (body r) = Some JNull"
  shows "on_response eng callback r log = (Some TypeError, log)"
  using assms by (auto simp: on_response_def)

theorem null_body_does_not_fall_through_witness:
  "JSON_parse sample_engine ''null'' = Some JNull
   \<and> on_response sample_engine (JFun 0) \<lparr>error = JNull, statusCode = 404, body = ''null''\<rparr> []
       = (Some TypeError, [])"
proof -
  let ?r = "\<lparr>error = JNull, statusCode = 404, body = ''null''\<rparr>"
  have h: "\<not> truthy (error ?r)" "statusCode ?r > 299 \<or> statusCode ?r < 200"
    "JSON_parse sample_engine (body ?r) = Some JNull"
    by (simp_all add: sample_engine_def sample_parse_def)
  from null_body_does_not_fall_through [OF h, of "JFun 0" "[]"] h(3) show ?thesis by simp
qed

subsection \<open>Construction\<close>

text \<open>
  Claim C7. Construction throws exactly when, after the caller's configuration is merged
  over the defaults, one of \<open>token\<close>, \<open>secret\<close> and \<open>server\<close> is missing or falsy: that is,
  when the caller left the key out or gave it a falsy value. It then throws the
  misconfiguration error and yields no client; in every other case it yields one. The
  constructor has no access to the transport, so nothing is sent before it throws.
\<close>

theorem construction_fails_iff_required_missing:
  assumes "distinct (map fst (props cfg))"
  shows "if \<exists>k \<in> {''token'', ''secret'', ''server''}.
              case map_of (props cfg) k of None \<Rightarrow> True | Some v \<Rightarrow> \<not> truthy v
         then SirportlyAPI cfg =
                Inl (Error ''Misconfiguration, token, secret and server required in the config.'')
         else \<exists>this. SirportlyAPI cfg = Inr this"
  by (simp add: SirportlyAPI_def Let_def and_then_def effective_config [OF assms]
      defaults split: option.splits)

theorem construction_fails_iff_required_missing_witness:
  "SirportlyAPI (JObj [(''token'', JStr ''t0k3n''), (''secret'', JStr []),
                       (''server'', JStr ''desk.example.com'')])
     = Inl (Error ''Misconfiguration, token, secret and server required in the config.'')
   \<and> SirportlyAPI (JObj [(''token'', JStr ''t0k3n''), (''port'', JNum 443)])
     = Inl (Error ''Misconfiguration, token, secret and server required in the config.'')
   \<and> (\<exists>this. SirportlyAPI sample_config = Inr this)"
proof -
  let ?a = "JObj [(''token'', JStr ''t0k3n''), (''secret'', JStr []),
                  (''server'', JStr ''desk.example.com'')]"
  let ?b = "JObj [(''token'', JStr ''t0k3n''), (''port'', JNum 443)]"
  have a: "distinct (map fst (props ?a))" by simp
  have b: "distinct (map fst (props ?b))" by simp
  have d: "distinct (map fst (props sample_config))" by (simp add: sample_config_def)
  have 1: "SirportlyAPI ?a =
      Inl (Error ''Misconfiguration, token, secret and server required in the config.'')"
    using construction_fails_iff_required_missing [OF a] by simp
  have 2: "SirportlyAPI ?b =
      Inl (Error ''Misconfiguration, token, secret and server required in the config.'')"
    using construction_fails_iff_required_missing [OF b] by simp
  have 3: "\<exists>this. SirportlyAPI sample_config = Inr this"
    using construction_fails_iff_required_missing [OF d] by (simp add: sample_config_def)
  from 1 2 3 show ?thesis by blast
qed

text \<open>
  Claim C8. For a configuration with truthy (for strings: non-empty) \<open>token\<close>, \<open>secret\<close>
  and \<open>server\<close>, construction succeeds, and \<open>getConfig\<close> returns a configuration in which
  every key the caller supplied has the caller's value, \<open>protocol\<close> is \<open>http\<close> when the
  caller omitted it, and \<open>port\<close> is 80 when the caller omitted it.
\<close>

theorem valid_configuration_constructs:
  assumes "distinct (map fst kvs)"
    and "map_of kvs ''token'' = Some token" and "truthy token"
    and "map_of kvs ''secret'' = Some secret" and "truthy secret"
    and "map_of kvs ''server'' = Some server" and "truthy server"
  shows "\<exists>this. SirportlyAPI (JObj kvs) = Inr this
           \<and> (\<forall>k v. map_of kvs k = Some v \<longrightarrow> get_prop (getConfig this) k = Inr v)
           \<and> (map_of kvs ''protocol'' = None
                \<longrightarrow> get_prop (getConfig this) ''protocol'' = Inr (JStr ''http''))
           \<and> (map_of kvs ''port'' = None
                \<longrightarrow> get_prop (getConfig this) ''port'' = Inr (JNum 80))"
proof -
  have d: "distinct (map fst (props (JObj kvs)))" using assms(1) by simp
  have eff: "\<And>k. get_prop (merge default_config (js_or (JObj kvs) (JObj []))) k =
           Inr (case map_of kvs k of
                  Some v \<Rightarrow> v
                | None \<Rightarrow> (case map_of (props default_config) k of
                              Some d \<Rightarrow> d | None \<Rightarrow> JUndefined))"
    using effective_config [OF d] by simp
  have "SirportlyAPI (JObj kvs) = Inr \<lparr>config = merge default_config (js_or (JObj kvs) (JObj []))\<rparr>"
    using assms(2-7) by (simp add: SirportlyAPI_def Let_def and_then_def eff)
  then show ?thesis
    by (simp add: getConfig_def eff defaults)
qed

theorem valid_configuration_constructs_witness:
  "SirportlyAPI sample_config = Inr sample_client
   \<and> get_prop (getConfig sample_client) ''token'' = Inr (JStr ''t0k3n'')
   \<and> get_prop (getConfig sample_client) ''secret'' = Inr (JStr ''s3cr3t'')
   \<and> get_prop (getConfig sample_client) ''server'' = Inr (JStr ''desk.example.com'')
   \<and> get_prop (getConfig sample_client) ''protocol'' = Inr (JStr ''http'')
   \<and> get_prop (getConfig sample_client) ''port'' = Inr (JNum 80)"
proof -
  let ?kvs = "[(''token'', JStr ''t0k3n''), (''secret'', JStr ''s3cr3t''),
               (''server'', JStr ''desk.example.com'')]"
  have h: "distinct (map fst ?kvs)" "map_of ?kvs ''token'' = Some (JStr ''t0k3n'')"
    "truthy (JStr ''t0k3n'')" "map_of ?kvs ''secret'' = Some (JStr ''s3cr3t'')"
    "truthy (JStr ''s3cr3t'')" "map_of ?kvs ''server'' = Some (JStr ''desk.example.com'')"
    "truthy (JStr ''desk.example.com'')"
    by simp_all
  from valid_configuration_constructs [OF h]
  obtain this where all:
    "SirportlyAPI (JObj ?kvs) = Inr this
       \<and> (\<forall>k v. map_of ?kvs k = Some v \<longrightarrow> get_prop (getConfig this) k = Inr v)
       \<and> (map_of ?kvs ''protocol'' = None
            \<longrightarrow> get_prop (getConfig this) ''protocol'' = Inr (JStr ''http''))
       \<and> (map_of ?kvs ''port'' = None
            \<longrightarrow> get_prop (getConfig this) ''port'' = Inr (JNum 80))" ..
  then have "this = sample_client"
    using sample_client_constructed by (simp add: sample_config_def)
  with all show ?thesis by (simp add: sample_config_def)
qed

subsection \<open>Undecodable bodies\<close>

text \<open>
  Claim C9. When the transport succeeds (its error argument is falsy) and the body is
  not valid JSON, \<open>JSON.parse\<close> throws inside the response handler: the SyntaxError
  escapes the handler and the callback is not invoked.
\<close>

theorem invalid_json_escapes:
  assumes "\<not> truthy (error r)" and "JSON_parse eng (body r) = None"
  shows "on_response eng callback r log = (Some SyntaxError, log)"
  using assms by (simp add: on_response_def)

theorem invalid_json_escapes_witness:
  "\<not> truthy (error \<lparr>error = JNull, statusCode = 502, body = ''<html>Bad Gateway</html>''\<rparr>)
   \<and> JSON_parse sample_engine
        (body \<lparr>error = JNull, statusCode = 502, body = ''<html>Bad Gateway</html>''\<rparr>) = None
   \<and> on_response sample_engine (JFun 0)
        \<lparr>error = JNull, statusCode = 502, body = ''<html>Bad Gateway</html>''\<rparr> []
      = (Some SyntaxError, [])"
proof -
  let ?r = "\<lparr>error = JNull, statusCode = 502, body = ''<html>Bad Gateway</html>''\<rparr>"
  have h1: "\<not> truthy (error ?r)" by simp
  have h2: "JSON_parse sample_engine (body ?r) = None"
    by (simp add: sample_engine_def sample_parse_def)
  show ?thesis using h1 h2 invalid_json_escapes [OF h1 h2, of "JFun 0" "[]"] by simp
qed

subsection \<open>Creating a user\<close>

text \<open>
  Claim C10. In \<open>create_user\<close> the extra parameters are merged over the three named fields
  and win. For a constructed client, a function callback and an endpoint that is built,
  the operation dispatches a POST whose query-string mapping gives every key the value
  \<open>params\<close> has for it, and gives a key that \<open>params\<close> lacks the positional argument:
  \<open>email\<close> for \<open>email_address\<close>, \<open>first\<close> for \<open>first_name\<close>, \<open>last\<close> for \<open>last_name\<close>, and
  nothing for any other key. So a \<open>params\<close> value for one of the three keys replaces the
  positional argument, and the other positional arguments are sent as given.
\<close>

theorem create_user_params_win:
  assumes "SirportlyAPI cfg = Inr this" and "typeof callback = ''function''"
    and "endpoint eng this (JStr ''/api/v2/users/create'') = Inr url"
    and "distinct (map fst ps)"
  shows "\<exists>out qs. create_user eng this email first last' (JObj ps) callback = Inr out
           \<and> req_callback out = callback
           \<and> get_prop (req_options out) ''method'' = Inr (JStr ''POST'')
           \<and> get_prop (req_options out) ''url'' = Inr (JStr url)
           \<and> get_prop (req_options out) ''qs'' = Inr qs
           \<and> (\<forall>k. get_prop qs k =
                  Inr (case map_of ps k of
                         Some v \<Rightarrow> v
                       | None \<Rightarrow>
                           if k = ''email_address'' then email
                           else if k = ''first_name'' then first
                           else if k = ''last_name'' then last'
                           else JUndefined))"
proof -
  obtain kvs where "config this = JObj kvs"
    using constructed_config [OF assms(1)] by (simp add: merge_def)
  from request_dispatches [OF assms(2) this assms(3)] show ?thesis
    by (simp add: create_user_def get_prop_merge map_of_rev_distinct [OF assms(4)]
        split: option.splits)
qed

theorem create_user_params_win_witness:
  "\<exists>out. create_user sample_engine sample_client (JStr ''ada@example.com'') (JStr ''Ada'')
           (JStr ''Lovelace'') (JObj [(''first_name'', JStr ''Grace''), (''admin'', JBool True)])
           (JFun 0) = Inr out
         \<and> get_prop (req_options out) ''qs''
             = Inr (JObj [(''email_address'', JStr ''ada@example.com''),
                          (''first_name'', JStr ''Grace''),
                          (''last_name'', JStr ''Lovelace''),
                          (''admin'', JBool True)])"
proof -
  let ?ps = "[(''first_name'', JStr ''Grace''), (''admin'', JBool True)]"
  have h: "SirportlyAPI sample_config = Inr sample_client" "typeof (JFun 0) = ''function''"
    "endpoint sample_engine sample_client (JStr ''/api/v2/users/create'')
       = Inr (''http://desk.example.com:80'' @ ''/api/v2/users/create'')"
    "distinct (map fst ?ps)"
    by (simp_all add: sample_client_constructed sample_endpoint)
  from create_user_params_win [OF h, of "JStr ''ada@example.com''" "JStr ''Ada''"
      "JStr ''Lovelace''"]
  obtain out where
    "create_user sample_engine sample_client (JStr ''ada@example.com'') (JStr ''Ada'')
       (JStr ''Lovelace'') (JObj ?ps) (JFun 0) = Inr out"
    by blast
  then show ?thesis
    by (auto simp: create_user_def request_def endpoint_def operand_def and_then_def
        merge_def sample_client_def sample_engine_def)
qed

end
